theory Spec2Isabelle
  imports Main
begin

section \<open>JavaScript values the handlers test\<close>

text \<open>
  The handlers test request fields, environment variables and column values for
  truthiness.  A field that is absent (\<open>undefined\<close>) or \<open>null\<close> is \<open>None\<close>; a string is
  truthy exactly when it is not empty.
\<close>

fun truthy :: "string option \<Rightarrow> bool" where
  "truthy None = False"
| "truthy (Some s) = (s \<noteq> [])"

text \<open>\<open>a || d\<close> on a string that may be absent.\<close>

fun or_default :: "string option \<Rightarrow> string \<Rightarrow> string" where
  "or_default None d = d"
| "or_default (Some s) d = (if s = [] then d else s)"

text \<open>
  What a property read on the object literal \<open>PLAN_LIMITS\<close> can yield: one of its own
  numbers, or a member inherited from \<open>Object.prototype\<close> (a function, or the prototype
  object itself for \<open>__proto__\<close>), named by its key.
\<close>

datatype js_value = JNum nat | JInherited string

fun js_truthy :: "js_value option \<Rightarrow> bool" where
  "js_truthy None = False"
| "js_truthy (Some (JNum n)) = (n \<noteq> 0)"
| "js_truthy (Some (JInherited k)) = True"

definition object_prototype_names :: "string list" where
  "object_prototype_names =
     [''constructor'', ''__defineGetter__'', ''__defineSetter__'', ''hasOwnProperty'',
      ''__lookupGetter__'', ''__lookupSetter__'', ''isPrototypeOf'',
      ''propertyIsEnumerable'', ''toString'', ''valueOf'', ''__proto__'',
      ''toLocaleString'']"

text \<open>Decimal rendering of a number inside a template literal.\<close>

function string_of_nat :: "nat \<Rightarrow> string" where
  "string_of_nat n =
     (if n < 10 then [''0123456789'' ! n]
      else string_of_nat (n div 10) @ [''0123456789'' ! (n mod 10)])"
  by pat_completeness auto
termination
  by (relation "measure (\<lambda>n. n)") auto

declare string_of_nat.simps [simp del]

section \<open>Plan policy\<close>

text \<open>
  \<^verbatim>\<open>const PLAN_LIMITS = { free: 4, premium: 20 };\<close>
  \<^verbatim>\<open>const DEFAULT_PLAN = "free";\<close>
  \<^verbatim>\<open>const getPlanLimit = (plan) => PLAN_LIMITS[plan] || PLAN_LIMITS[DEFAULT_PLAN];\<close>

  \<open>PLAN_LIMITS key\<close> is the bracket read \<open>PLAN_LIMITS[key]\<close>: the own properties first,
  then the prototype chain of a plain object, else \<open>undefined\<close>.
\<close>

definition PLAN_LIMITS :: "string \<Rightarrow> js_value option" where
  "PLAN_LIMITS key =
     (if key = ''free'' then Some (JNum 4)
      else if key = ''premium'' then Some (JNum 20)
      else if key \<in> set object_prototype_names then Some (JInherited key)
      else None)"

definition DEFAULT_PLAN :: string where
  "DEFAULT_PLAN = ''free''"

definition getPlanLimit :: "string \<Rightarrow> js_value option" where
  "getPlanLimit tier =
     (if js_truthy (PLAN_LIMITS tier) then PLAN_LIMITS tier else PLAN_LIMITS DEFAULT_PLAN)"

text \<open>
  \<open>userBlogCount >= planLimit\<close>: a number is compared as it is; a function, an object
  or \<open>undefined\<close> converts to \<open>NaN\<close>, and every comparison with \<open>NaN\<close> is false.  The
  result carries the numeric limit when the comparison holds, for the message.
\<close>

fun limit_reached :: "nat \<Rightarrow> js_value option \<Rightarrow> nat option" where
  "limit_reached userBlogCount (Some (JNum planLimit)) =
     (if userBlogCount \<ge> planLimit then Some planLimit else None)"
| "limit_reached userBlogCount (Some (JInherited k)) = None"
| "limit_reached userBlogCount None = None"

section \<open>The remote store\<close>

text \<open>
  The tables \<open>profiles\<close> and \<open>blogs\<close> live in a remote PostgREST store reached
  through the \<open>supabase\<close> client.  A query never throws: it resolves to
  \<open>{data, error}\<close>, here a pair.  The store is modelled as reachable: the errors are the
  ones its own semantics produce.  Each awaited query is recorded in \<open>calls\<close>, so that a
  handler that touches the store at all is told apart from one that does not.
\<close>

record profile =
  profile_id :: string
  plan :: string
  stripe_customer_id :: "string option"
  stripe_subscription_id :: "string option"

record blog =
  blog_id :: nat
  title :: string
  content :: string
  user_id :: string

datatype store_error = StoreError (code: string) (message: string)

datatype store_call =
  SelectProfiles | InsertProfiles | UpdateProfiles
  | CountBlogs | InsertBlogs | UpdateBlogs | DeleteBlogs

record store =
  profiles :: "profile list"
  blogs :: "blog list"
  blogs_seq :: nat
  calls :: "store_call list"

type_synonym 'a query_result = "'a option \<times> store_error option"

definition logged :: "store_call \<Rightarrow> store \<Rightarrow> store" where
  "logged c s = s\<lparr>calls := calls s @ [c]\<rparr>"

text \<open>
  \<open>.single()\<close>: the one row of the result, or the error \<open>PGRST116\<close> when the result has
  no row or several (the code \<open>ensureProfile\<close> tests for).
\<close>

definition single :: "'a list \<Rightarrow> 'a query_result" where
  "single rows =
     (case rows of
        [r] \<Rightarrow> (Some r, None)
      | _ \<Rightarrow> (None, Some (StoreError ''PGRST116''
                 ''JSON object requested, multiple (or no) rows returned'')))"

text \<open>\<open>.eq("id", v)\<close> and \<open>.eq("stripe_customer_id", v)\<close> on \<open>profiles\<close>; a null never
  equals anything.\<close>

definition eq_id :: "string \<Rightarrow> profile \<Rightarrow> bool" where
  "eq_id v p = (profile_id p = v)"

fun eq_stripe_customer_id :: "string option \<Rightarrow> profile \<Rightarrow> bool" where
  "eq_stripe_customer_id None p = False"
| "eq_stripe_customer_id (Some c) p = (stripe_customer_id p = Some c)"

text \<open>\<open>.eq("id", blogId).eq("user_id", userId)\<close> on \<open>blogs\<close>.\<close>

definition eq_id_user_id :: "nat \<Rightarrow> string \<Rightarrow> blog \<Rightarrow> bool" where
  "eq_id_user_id i v b = (blog_id b = i \<and> user_id b = v)"

text \<open>\<open>from("profiles").select("*").eq("id", v).single()\<close>\<close>

definition profiles_select_single :: "store \<Rightarrow> string \<Rightarrow> profile query_result \<times> store" where
  "profiles_select_single s v =
     (single (filter (eq_id v) (profiles s)), logged SelectProfiles s)"

text \<open>
  \<open>from("profiles").insert({id: v, plan: pl}).select().single()\<close>

  Modelled from the spec: the table declarations are not in the source.  The spec's
  data model makes \<open>id\<close> the primary key of a profile and the two billing columns
  nullable, so an insert of an \<open>id\<close> already present is refused (\<open>23505\<close>) and the
  columns the insert leaves out are null.
\<close>

definition profiles_insert_single ::
  "store \<Rightarrow> string \<Rightarrow> string \<Rightarrow> profile query_result \<times> store" where
  "profiles_insert_single s v pl =
     (let row = \<lparr>profile_id = v, plan = pl,
                 stripe_customer_id = None, stripe_subscription_id = None\<rparr>
      in if v \<in> set (map profile_id (profiles s))
         then ((None, Some (StoreError ''23505''
                 ''duplicate key value violates unique constraint'')),
               logged InsertProfiles s)
         else ((Some row, None),
               logged InsertProfiles (s\<lparr>profiles := profiles s @ [row]\<rparr>)))"

text \<open>\<open>from("profiles").update(upd).eq(...)\<close>, whose result the callers drop.\<close>

definition profiles_update_where ::
  "store \<Rightarrow> (profile \<Rightarrow> profile) \<Rightarrow> (profile \<Rightarrow> bool) \<Rightarrow> store" where
  "profiles_update_where s upd hit =
     logged UpdateProfiles
       (s\<lparr>profiles := map (\<lambda>p. if hit p then upd p else p) (profiles s)\<rparr>)"

text \<open>\<open>from("blogs").select("*", {count: "exact", head: true}).eq("user_id", v)\<close>\<close>

definition blogs_count :: "store \<Rightarrow> string \<Rightarrow> nat query_result \<times> store" where
  "blogs_count s v =
     ((Some (length (filter (\<lambda>b. user_id b = v) (blogs s))), None), logged CountBlogs s)"

text \<open>
  \<open>from("blogs").insert({title, content, user_id}).select().single()\<close>

  Modelled from the spec: the table declarations are not in the source.  The spec's
  data model makes the \<open>id\<close> of a post a generated identifier; here the next value of
  a sequence.
\<close>

definition blogs_insert_single ::
  "store \<Rightarrow> string \<Rightarrow> string \<Rightarrow> string \<Rightarrow> blog query_result \<times> store" where
  "blogs_insert_single s t c v =
     (let row = \<lparr>blog_id = blogs_seq s, title = t, content = c, user_id = v\<rparr>
      in ((Some row, None),
          logged InsertBlogs (s\<lparr>blogs := blogs s @ [row], blogs_seq := Suc (blogs_seq s)\<rparr>)))"

text \<open>
  \<open>from("blogs").update({title, content}).eq("id", i).eq("user_id", v).select().single()\<close>:
  the rows that match are changed and returned; unless that is one row, the request
  fails with \<open>PGRST116\<close> and changes nothing.
\<close>

definition blogs_update_single ::
  "store \<Rightarrow> string \<Rightarrow> string \<Rightarrow> nat \<Rightarrow> string \<Rightarrow> blog query_result \<times> store" where
  "blogs_update_single s t c i v =
     (let upd = (\<lambda>b. b\<lparr>title := t, content := c\<rparr>);
          res = single (map upd (filter (eq_id_user_id i v) (blogs s)))
      in case fst res of
           Some r \<Rightarrow>
             (res, logged UpdateBlogs
                (s\<lparr>blogs := map (\<lambda>b. if eq_id_user_id i v b then upd b else b) (blogs s)\<rparr>))
         | None \<Rightarrow> (res, logged UpdateBlogs s))"

text \<open>\<open>from("blogs").delete().eq("id", i).eq("user_id", v).select().single()\<close>\<close>

definition blogs_delete_single :: "store \<Rightarrow> nat \<Rightarrow> string \<Rightarrow> blog query_result \<times> store" where
  "blogs_delete_single s i v =
     (let res = single (filter (eq_id_user_id i v) (blogs s))
      in case fst res of
           Some r \<Rightarrow>
             (res, logged DeleteBlogs
                (s\<lparr>blogs := filter (\<lambda>b. \<not> eq_id_user_id i v b) (blogs s)\<rparr>))
         | None \<Rightarrow> (res, logged DeleteBlogs s))"

section \<open>The billing provider\<close>

record stripe_customer =
  customer_id :: string
  customer_email :: "string option"
  customer_supabaseUserId :: string

record checkout_session =
  session_url :: string
  session_customer :: string
  session_price :: "string option"
  session_success_url :: string
  session_cancel_url :: string
  session_supabaseUserId :: string

text \<open>
  The object of a webhook event, read through \<open>metadata?.supabaseUserId\<close>, \<open>customer\<close>
  and \<open>subscription\<close>.
\<close>

record event_object =
  metadata_supabaseUserId :: "string option"
  customer :: "string option"
  subscription :: "string option"

record event =
  event_type :: string
  data_object :: event_object

text \<open>
  The provider's library is a parameter: \<open>constructEvent\<close> checks the signature of a
  raw body against the secret and either throws (\<open>Inl\<close> the message) or returns the
  event; the other two name the customer and the session the provider creates next.
\<close>

record stripe_sdk =
  constructEvent :: "string \<Rightarrow> string option \<Rightarrow> string option \<Rightarrow> string + event"
  customer_id_gen :: "nat \<Rightarrow> string"
  session_url_gen :: "nat \<Rightarrow> string"

record config =
  stripeSecretKey :: "string option"
  stripePriceId :: "string option"
  stripeWebhookSecret :: "string option"
  FRONTEND_URL :: "string option"

record world =
  db :: store
  stripe_customers :: "stripe_customer list"
  checkout_sessions :: "checkout_session list"

section \<open>Requests and responses\<close>

record user =
  uid :: string
  email :: "string option"

record blog_body =
  body_title :: "string option"
  body_content :: "string option"

record webhook_request =
  raw_body :: string
  stripe_signature :: "string option"

datatype response_body =
  ErrorJson string
  | TextBody string
  | ReceivedJson bool
  | BlogJson blog
  | MessageJson string
  | NullJson
  | CheckoutUrlJson string

record response =
  status :: nat
  body :: response_body

section \<open>Webhook synchronizer\<close>

text \<open>The \<open>switch (event.type)\<close> of the webhook handler.\<close>

definition apply_event :: "store \<Rightarrow> event \<Rightarrow> store" where
  "apply_event s ev =
     (if event_type ev = ''checkout.session.completed'' then
        (let session = data_object ev
         in case metadata_supabaseUserId session of
              None \<Rightarrow> s
            | Some supabaseUserId \<Rightarrow>
                if supabaseUserId = [] then s
                else profiles_update_where s
                       (\<lambda>p. p\<lparr>plan := ''premium'',
                              stripe_customer_id := customer session,
                              stripe_subscription_id := subscription session\<rparr>)
                       (eq_id supabaseUserId))
      else if event_type ev = ''customer.subscription.deleted'' then
        (let deleted = data_object ev
         in profiles_update_where s
              (\<lambda>p. p\<lparr>plan := DEFAULT_PLAN, stripe_subscription_id := None\<rparr>)
              (eq_stripe_customer_id (customer deleted)))
      else s)"

text \<open>
  \<open>app.post("/stripe/webhook", ...)\<close>.  Nothing in the \<open>switch\<close> throws (the client
  resolves to \<open>{data, error}\<close>, which the handler drops), so the \<open>catch\<close> that answers 500
  has no branch here.
\<close>

definition stripe_webhook ::
  "config \<Rightarrow> stripe_sdk \<Rightarrow> world \<Rightarrow> webhook_request \<Rightarrow> response \<times> world" where
  "stripe_webhook cfg sdk w req =
     (if truthy (stripeSecretKey cfg) \<and> truthy (stripeWebhookSecret cfg) then
        (case constructEvent sdk (raw_body req) (stripe_signature req)
                (stripeWebhookSecret cfg) of
           Inl err_message \<Rightarrow>
             (\<lparr>status = 400, body = TextBody (''Webhook Error: '' @ err_message)\<rparr>, w)
         | Inr ev \<Rightarrow>
             (\<lparr>status = 200, body = ReceivedJson True\<rparr>, w\<lparr>db := apply_event (db w) ev\<rparr>))
      else (\<lparr>status = 400, body = ErrorJson ''Stripe webhook not configured.''\<rparr>, w))"

section \<open>Profile provisioner and post count\<close>

text \<open>
  \<open>ensureProfile\<close>: \<open>Inl\<close> is the error it throws, \<open>Inr\<close> the value it returns (the
  \<open>data\<close> of a query, which is null when the query failed).  The insert after a missed
  lookup is written once, as \<open>insert_default_profile\<close>.  A handler that reads
  \<open>profile.plan\<close> of a null throws, and answers 500 from its \<open>catch\<close>.
\<close>

definition insert_default_profile ::
  "store \<Rightarrow> user \<Rightarrow> (store_error + profile option) \<times> store" where
  "insert_default_profile s usr =
     (case profiles_insert_single s (uid usr) DEFAULT_PLAN of
        ((newProfile, Some insertError), s1) \<Rightarrow> (Inl insertError, s1)
      | ((newProfile, None), s1) \<Rightarrow> (Inr newProfile, s1))"

definition ensureProfile :: "store \<Rightarrow> user \<Rightarrow> (store_error + profile option) \<times> store" where
  "ensureProfile s usr =
     (case profiles_select_single s (uid usr) of
        ((Some p, err), s1) \<Rightarrow> (Inr (Some p), s1)
      | ((None, Some err), s1) \<Rightarrow>
          (if code err \<noteq> ''PGRST116'' then (Inl err, s1)
           else insert_default_profile s1 usr)
      | ((None, None), s1) \<Rightarrow> insert_default_profile s1 usr)"

definition getBlogCount :: "store \<Rightarrow> string \<Rightarrow> (store_error + nat) \<times> store" where
  "getBlogCount s userId =
     (case blogs_count s userId of
        ((count, Some err), s1) \<Rightarrow> (Inl err, s1)
      | ((count, None), s1) \<Rightarrow> (Inr (case count of None \<Rightarrow> 0 | Some n \<Rightarrow> n), s1))"

section \<open>Post handlers\<close>

text \<open>
  \<open>const { title, content } = req.body; if (!title || !content) ...\<close>: the two strings
  when both are truthy, for a body whose two fields are strings or absent.
\<close>

definition required_fields :: "blog_body \<Rightarrow> (string \<times> string) option" where
  "required_fields b =
     (case (body_title b, body_content b) of
        (Some t, Some c) \<Rightarrow> if t = [] \<or> c = [] then None else Some (t, c)
      | _ \<Rightarrow> None)"

definition failed :: "string \<Rightarrow> response" where
  "failed msg = \<lparr>status = 500, body = ErrorJson msg\<rparr>"

text \<open>\<open>app.post("/blogs", requireAuth, ...)\<close>, for the user \<open>requireAuth\<close> attached.\<close>

definition post_blogs :: "world \<Rightarrow> user \<Rightarrow> blog_body \<Rightarrow> response \<times> world" where
  "post_blogs w usr b =
     (case required_fields b of
        None \<Rightarrow> (\<lparr>status = 400, body = ErrorJson ''Title and content are required.''\<rparr>, w)
      | Some (t, c) \<Rightarrow>
          (case ensureProfile (db w) usr of
             (Inl err, s1) \<Rightarrow> (failed ''Failed to add blog.'', w\<lparr>db := s1\<rparr>)
           | (Inr None, s1) \<Rightarrow> (failed ''Failed to add blog.'', w\<lparr>db := s1\<rparr>)
           | (Inr (Some p), s1) \<Rightarrow>
               (case getBlogCount s1 (uid usr) of
                  (Inl err, s2) \<Rightarrow> (failed ''Failed to add blog.'', w\<lparr>db := s2\<rparr>)
                | (Inr userBlogCount, s2) \<Rightarrow>
                    (case limit_reached userBlogCount (getPlanLimit (plan p)) of
                       Some planLimit \<Rightarrow>
                         (\<lparr>status = 403,
                           body = ErrorJson (''Plan limit reached. Upgrade to add more than ''
                                    @ string_of_nat planLimit @ '' blogs.'')\<rparr>,
                          w\<lparr>db := s2\<rparr>)
                     | None \<Rightarrow>
                         (case blogs_insert_single s2 t c (uid usr) of
                            ((d, Some err), s3) \<Rightarrow>
                              (failed ''Failed to add blog.'', w\<lparr>db := s3\<rparr>)
                          | ((None, None), s3) \<Rightarrow>
                              (\<lparr>status = 200, body = NullJson\<rparr>, w\<lparr>db := s3\<rparr>)
                          | ((Some d, None), s3) \<Rightarrow>
                              (\<lparr>status = 200, body = BlogJson d\<rparr>, w\<lparr>db := s3\<rparr>))))))"

text \<open>
  \<open>app.put("/blogs/:id", requireAuth, ...)\<close>, for a \<open>:id\<close> that reads as a number of
  the \<open>id\<close> column.
\<close>

definition put_blogs :: "world \<Rightarrow> user \<Rightarrow> nat \<Rightarrow> blog_body \<Rightarrow> response \<times> world" where
  "put_blogs w usr blogId b =
     (case required_fields b of
        None \<Rightarrow> (\<lparr>status = 400, body = ErrorJson ''Title and content are required.''\<rparr>, w)
      | Some (t, c) \<Rightarrow>
          (case blogs_update_single (db w) t c blogId (uid usr) of
             ((d, Some err), s1) \<Rightarrow> (failed ''Failed to update blog.'', w\<lparr>db := s1\<rparr>)
           | ((None, None), s1) \<Rightarrow>
               (\<lparr>status = 404, body = ErrorJson ''Blog not found.''\<rparr>, w\<lparr>db := s1\<rparr>)
           | ((Some d, None), s1) \<Rightarrow>
               (\<lparr>status = 200, body = BlogJson d\<rparr>, w\<lparr>db := s1\<rparr>)))"

text \<open>\<open>app.delete("/blogs/:id", requireAuth, ...)\<close>\<close>

definition delete_blogs :: "world \<Rightarrow> user \<Rightarrow> nat \<Rightarrow> response \<times> world" where
  "delete_blogs w usr blogId =
     (case blogs_delete_single (db w) blogId (uid usr) of
        ((d, Some err), s1) \<Rightarrow> (failed ''Failed to delete blog.'', w\<lparr>db := s1\<rparr>)
      | ((None, None), s1) \<Rightarrow>
          (\<lparr>status = 404, body = ErrorJson ''Blog not found.''\<rparr>, w\<lparr>db := s1\<rparr>)
      | ((Some d, None), s1) \<Rightarrow>
          (\<lparr>status = 200, body = MessageJson ''Blog deleted successfully.''\<rparr>, w\<lparr>db := s1\<rparr>))"

section \<open>Checkout initiator\<close>

text \<open>\<open>stripe.customers.create({email, metadata: {supabaseUserId}})\<close>\<close>

definition customers_create ::
  "stripe_sdk \<Rightarrow> world \<Rightarrow> string option \<Rightarrow> string \<Rightarrow> stripe_customer \<times> world" where
  "customers_create sdk w mail v =
     (let cust = \<lparr>customer_id = customer_id_gen sdk (length (stripe_customers w)),
                  customer_email = mail, customer_supabaseUserId = v\<rparr>
      in (cust, w\<lparr>stripe_customers := stripe_customers w @ [cust]\<rparr>))"

text \<open>\<open>stripe.checkout.sessions.create({...})\<close>\<close>

definition sessions_create ::
  "config \<Rightarrow> stripe_sdk \<Rightarrow> world \<Rightarrow> string \<Rightarrow> string \<Rightarrow> checkout_session \<times> world" where
  "sessions_create cfg sdk w customerId v =
     (let sess = \<lparr>session_url = session_url_gen sdk (length (checkout_sessions w)),
                  session_customer = customerId,
                  session_price = stripePriceId cfg,
                  session_success_url =
                    or_default (FRONTEND_URL cfg) ''http://localhost:3000'' @ ''/billing-success'',
                  session_cancel_url =
                    or_default (FRONTEND_URL cfg) ''http://localhost:3000'' @ ''/billing-cancel'',
                  session_supabaseUserId = v\<rparr>
      in (sess, w\<lparr>checkout_sessions := checkout_sessions w @ [sess]\<rparr>))"

text \<open>
  \<open>let customerId = profile.stripe_customer_id; if (!customerId) { ... }\<close>: the
  customer id the session is created for, and the world after the block.
\<close>

definition resolve_customer ::
  "stripe_sdk \<Rightarrow> world \<Rightarrow> user \<Rightarrow> profile \<Rightarrow> string \<times> world" where
  "resolve_customer sdk w usr p =
     (if truthy (stripe_customer_id p) then (or_default (stripe_customer_id p) [], w)
      else
        (case customers_create sdk w
                (if truthy (email usr) then email usr else None) (uid usr) of
           (cust, w1) \<Rightarrow>
             (customer_id cust,
              w1\<lparr>db := profiles_update_where (db w1)
                          (\<lambda>q. q\<lparr>stripe_customer_id := Some (customer_id cust)\<rparr>)
                          (eq_id (uid usr))\<rparr>)))"

text \<open>\<open>app.post("/billing/checkout", requireAuth, ...)\<close>\<close>

definition billing_checkout ::
  "config \<Rightarrow> stripe_sdk \<Rightarrow> world \<Rightarrow> user \<Rightarrow> response \<times> world" where
  "billing_checkout cfg sdk w usr =
     (if truthy (stripeSecretKey cfg) \<and> truthy (stripePriceId cfg) then
        (case ensureProfile (db w) usr of
           (Inl err, s1) \<Rightarrow> (failed ''Failed to create checkout session.'', w\<lparr>db := s1\<rparr>)
         | (Inr None, s1) \<Rightarrow> (failed ''Failed to create checkout session.'', w\<lparr>db := s1\<rparr>)
         | (Inr (Some p), s1) \<Rightarrow>
             (if plan p = ''premium'' then
                (\<lparr>status = 400, body = ErrorJson ''You already have the premium plan.''\<rparr>,
                 w\<lparr>db := s1\<rparr>)
              else
                (case resolve_customer sdk (w\<lparr>db := s1\<rparr>) usr p of
                   (customerId, w1) \<Rightarrow>
                     (case sessions_create cfg sdk w1 customerId (uid usr) of
                        (checkoutSession, w2) \<Rightarrow>
                          (\<lparr>status = 200,
                            body = CheckoutUrlJson (session_url checkoutSession)\<rparr>, w2)))))
      else (failed ''Stripe not configured.'', w))"

text \<open>
  A run of \<open>n\<close> checkout requests of one user, one after the other, each on the world
  the one before left.
\<close>

fun checkout_calls :: "nat \<Rightarrow> config \<Rightarrow> stripe_sdk \<Rightarrow> user \<Rightarrow> world \<Rightarrow> world" where
  "checkout_calls 0 cfg sdk usr w = w"
| "checkout_calls (Suc n) cfg sdk usr w =
     checkout_calls n cfg sdk usr (snd (billing_checkout cfg sdk w usr))"

section \<open>A sample deployment\<close>

text \<open>
  Concrete values at which the results below are evaluated.  The sample library
  accepts a delivery whose signature header equals the secret and reads the event type
  off the payload; the object of every sample event is tagged with user \<open>u1\<close>,
  customer \<open>cus_1\<close> and subscription \<open>sub_1\<close>.
\<close>

definition sample_sdk :: stripe_sdk where
  "sample_sdk =
     \<lparr>constructEvent =
        (\<lambda>payload signature secret.
           if signature = secret
           then Inr \<lparr>event_type = payload,
                     data_object = \<lparr>metadata_supabaseUserId = Some ''u1'',
                                     customer = Some ''cus_1'',
                                     subscription = Some ''sub_1''\<rparr>\<rparr>
           else Inl ''No signatures found matching the expected signature for payload.''),
      customer_id_gen = (\<lambda>n. ''cus_'' @ string_of_nat (n + 10)),
      session_url_gen = (\<lambda>n. ''https://checkout.stripe.com/c/pay/'' @ string_of_nat n)\<rparr>"

definition sample_config :: config where
  "sample_config =
     \<lparr>stripeSecretKey = Some ''sk_test'', stripePriceId = Some ''price_1'',
      stripeWebhookSecret = Some ''whsec_test'', FRONTEND_URL = None\<rparr>"

text \<open>
  Three profiles: \<open>u1\<close> on the free plan and never billed, with four posts; \<open>u2\<close> on
  the premium plan, with one post; \<open>u3\<close> back on the free plan after a cancelled
  subscription, its customer id kept, with no post.
\<close>

definition sample_store :: store where
  "sample_store =
     \<lparr>profiles =
        [\<lparr>profile_id = ''u1'', plan = ''free'',
          stripe_customer_id = None, stripe_subscription_id = None\<rparr>,
         \<lparr>profile_id = ''u2'', plan = ''premium'',
          stripe_customer_id = Some ''cus_1'', stripe_subscription_id = Some ''sub_1''\<rparr>,
         \<lparr>profile_id = ''u3'', plan = ''free'',
          stripe_customer_id = Some ''cus_3'', stripe_subscription_id = None\<rparr>],
      blogs =
        [\<lparr>blog_id = 1, title = ''a'', content = ''x'', user_id = ''u1''\<rparr>,
         \<lparr>blog_id = 2, title = ''b'', content = ''x'', user_id = ''u1''\<rparr>,
         \<lparr>blog_id = 3, title = ''c'', content = ''x'', user_id = ''u1''\<rparr>,
         \<lparr>blog_id = 4, title = ''d'', content = ''x'', user_id = ''u1''\<rparr>,
         \<lparr>blog_id = 5, title = ''e'', content = ''x'', user_id = ''u2''\<rparr>],
      blogs_seq = 6,
      calls = []\<rparr>"

definition sample_world :: world where
  "sample_world =
     \<lparr>db = sample_store,
      stripe_customers =
        [\<lparr>customer_id = ''cus_1'', customer_email = None, customer_supabaseUserId = ''u2''\<rparr>,
         \<lparr>customer_id = ''cus_3'', customer_email = None, customer_supabaseUserId = ''u3''\<rparr>],
      checkout_sessions = []\<rparr>"

definition sample_user :: "string \<Rightarrow> user" where
  "sample_user v = \<lparr>uid = v, email = None\<rparr>"

definition sample_body :: blog_body where
  "sample_body = \<lparr>body_title = Some ''t'', body_content = Some ''c''\<rparr>"

definition sample_delivery :: "string \<Rightarrow> string \<Rightarrow> webhook_request" where
  "sample_delivery payload signature =
     \<lparr>raw_body = payload, stripe_signature = Some signature\<rparr>"

section \<open>Plan policy: results\<close>

lemma getPlanLimit_free: "getPlanLimit ''free'' = Some (JNum 4)"
  by (simp add: getPlanLimit_def PLAN_LIMITS_def)

lemma getPlanLimit_premium: "getPlanLimit ''premium'' = Some (JNum 20)"
  by (simp add: getPlanLimit_def PLAN_LIMITS_def)

lemma getPlanLimit_own_fallback:
  "tier \<noteq> ''premium'' \<Longrightarrow> tier \<notin> set object_prototype_names \<Longrightarrow>
   getPlanLimit tier = Some (JNum 4)"
  by (simp add: getPlanLimit_def PLAN_LIMITS_def DEFAULT_PLAN_def)

text \<open>
  Claim C5.  The plan policy is to return 4 for \<open>free\<close>, 20 for \<open>premium\<close> and the free
  ceiling 4 for every other tier string.  The first two hold
  (\<open>getPlanLimit_free\<close>, \<open>getPlanLimit_premium\<close>), and so does the fallback for every
  key that a plain object does not inherit (\<open>getPlanLimit_own_fallback\<close>).  At the tier
  string \<open>toString\<close>, which is neither \<open>free\<close> nor \<open>premium\<close>, the bracket read finds
  the inherited member, which is truthy, so the \<open>||\<close> fallback never runs and the
  result is that member, not the number 4.
\<close>

theorem C5_getPlanLimit_inherited_key:
  "getPlanLimit ''toString'' = Some (JInherited ''toString'')
   \<and> getPlanLimit ''toString'' \<noteq> Some (JNum 4)
   \<and> ''toString'' \<noteq> ''free'' \<and> ''toString'' \<noteq> ''premium''"
  by (simp add: getPlanLimit_def PLAN_LIMITS_def object_prototype_names_def)

section \<open>Store queries: basic facts\<close>

lemma map_if_miss:
  "(\<And>x. x \<in> set xs \<Longrightarrow> \<not> hit x) \<Longrightarrow> map (\<lambda>p. if hit p then upd p else p) xs = xs"
  by (induction xs) auto

lemma filter_eq_id_absent:
  "v \<notin> set (map profile_id ps) \<Longrightarrow> filter (eq_id v) ps = []"
  by (induction ps) (auto simp: eq_id_def)

lemma filter_eq_id_update:
  "(\<And>q. profile_id (upd q) = profile_id q) \<Longrightarrow>
   filter (eq_id v) (map (\<lambda>q. if eq_id v q then upd q else q) ps) = map upd (filter (eq_id v) ps)"
  by (induction ps) (auto simp: eq_id_def)

lemma single_Some: "single rows = (Some r, e) \<Longrightarrow> rows = [r]"
  by (auto simp: single_def split: list.splits)

lemma single_None: "fst (single rows) = None \<Longrightarrow> snd (single rows) \<noteq> None"
  by (auto simp: single_def split: list.splits)

lemma profiles_update_where_profiles [simp]:
  "profiles (profiles_update_where s upd hit) =
     map (\<lambda>p. if hit p then upd p else p) (profiles s)"
  by (simp add: profiles_update_where_def logged_def)

lemma profiles_update_where_blogs [simp]:
  "blogs (profiles_update_where s upd hit) = blogs s"
  by (simp add: profiles_update_where_def logged_def)

lemma string_of_nat_4: "string_of_nat 4 = ''4''"
  by (simp add: string_of_nat.simps)

section \<open>Webhook synchronizer: results\<close>

lemma apply_event_blogs [simp]: "blogs (apply_event s ev) = blogs s"
  by (simp add: apply_event_def Let_def split: option.splits)

lemma webhook_verified:
  "truthy (stripeSecretKey cfg) \<Longrightarrow> truthy (stripeWebhookSecret cfg) \<Longrightarrow>
   constructEvent sdk (raw_body req) (stripe_signature req) (stripeWebhookSecret cfg) = Inr ev \<Longrightarrow>
   stripe_webhook cfg sdk w req =
     (\<lparr>status = 200, body = ReceivedJson True\<rparr>, w\<lparr>db := apply_event (db w) ev\<rparr>)"
  by (simp add: stripe_webhook_def)

text \<open>
  Claim C2.  A delivery whose signature \<open>constructEvent\<close> does not verify against the
  webhook secret is answered with status 400 and leaves the whole world as it was: no
  profile is changed and the store is not even queried.  The event type plays no part:
  the handler has no event before \<open>constructEvent\<close> returns one, and the answer here is
  the same whatever the payload holds.  (A deployment with no key or no secret
  configured answers 400 as well, without verifying.)
\<close>

theorem C2_unverified_delivery_rejected:
  assumes "constructEvent sdk (raw_body req) (stripe_signature req)
             (stripeWebhookSecret cfg) = Inl m"
  shows "status (fst (stripe_webhook cfg sdk w req)) = 400
       \<and> snd (stripe_webhook cfg sdk w req) = w
       \<and> profiles (db (snd (stripe_webhook cfg sdk w req))) = profiles (db w)"
  using assms by (simp add: stripe_webhook_def)

theorem C2_unverified_delivery_rejected_witness:
  "constructEvent sample_sdk ''customer.subscription.deleted'' (Some ''forged'')
       (stripeWebhookSecret sample_config)
     = Inl ''No signatures found matching the expected signature for payload.''
   \<and> status (fst (stripe_webhook sample_config sample_sdk sample_world
         (sample_delivery ''customer.subscription.deleted'' ''forged''))) = 400
   \<and> snd (stripe_webhook sample_config sample_sdk sample_world
         (sample_delivery ''customer.subscription.deleted'' ''forged'')) = sample_world"
proof -
  have bad: "constructEvent sample_sdk
      (raw_body (sample_delivery ''customer.subscription.deleted'' ''forged''))
      (stripe_signature (sample_delivery ''customer.subscription.deleted'' ''forged''))
      (stripeWebhookSecret sample_config)
    = Inl ''No signatures found matching the expected signature for payload.''"
    by (simp add: sample_sdk_def sample_config_def sample_delivery_def)
  show ?thesis
    using bad C2_unverified_delivery_rejected [OF bad, of sample_world]
    by (simp add: sample_delivery_def)
qed

text \<open>
  Claim C3.  A verified \<open>checkout.session.completed\<close> event tagged with the identity
  \<open>U1\<close> (a non-empty id, as every identity is), customer \<open>cus_1\<close> and subscription
  \<open>sub_1\<close> is answered \<open>{received: true}\<close>, and a profile row whose id is \<open>U1\<close> then has
  plan \<open>premium\<close>, \<open>stripe_customer_id = cus_1\<close> and \<open>stripe_subscription_id = sub_1\<close>.
\<close>

theorem C3_checkout_completed_sets_premium:
  assumes cfg: "truthy (stripeSecretKey cfg)" "truthy (stripeWebhookSecret cfg)"
    and signed: "constructEvent sdk (raw_body req) (stripe_signature req)
                   (stripeWebhookSecret cfg) = Inr ev"
    and kind: "event_type ev = ''checkout.session.completed''"
    and tag: "metadata_supabaseUserId (data_object ev) = Some U1" "U1 \<noteq> []"
    and refs: "customer (data_object ev) = Some cus_1"
              "subscription (data_object ev) = Some sub_1"
    and row: "i < length (profiles (db w))" "profile_id (profiles (db w) ! i) = U1"
  shows "fst (stripe_webhook cfg sdk w req) = \<lparr>status = 200, body = ReceivedJson True\<rparr>
       \<and> length (profiles (db (snd (stripe_webhook cfg sdk w req)))) = length (profiles (db w))
       \<and> profiles (db (snd (stripe_webhook cfg sdk w req))) ! i =
           \<lparr>profile_id = U1, plan = ''premium'',
            stripe_customer_id = Some cus_1, stripe_subscription_id = Some sub_1\<rparr>"
  using tag refs row kind
  by (simp add: webhook_verified [OF cfg signed] apply_event_def eq_id_def)

theorem C3_checkout_completed_sets_premium_witness:
  "profile_id (profiles (db sample_world) ! 0) = ''u1''
   \<and> plan (profiles (db sample_world) ! 0) = ''free''
   \<and> fst (stripe_webhook sample_config sample_sdk sample_world
         (sample_delivery ''checkout.session.completed'' ''whsec_test''))
       = \<lparr>status = 200, body = ReceivedJson True\<rparr>
   \<and> profiles (db (snd (stripe_webhook sample_config sample_sdk sample_world
         (sample_delivery ''checkout.session.completed'' ''whsec_test'')))) ! 0
       = \<lparr>profile_id = ''u1'', plan = ''premium'',
          stripe_customer_id = Some ''cus_1'', stripe_subscription_id = Some ''sub_1''\<rparr>"
proof -
  let ?req = "sample_delivery ''checkout.session.completed'' ''whsec_test''"
  let ?ev = "\<lparr>event_type = ''checkout.session.completed'',
              data_object = \<lparr>metadata_supabaseUserId = Some ''u1'',
                              customer = Some ''cus_1'',
                              subscription = Some ''sub_1''\<rparr>\<rparr>"
  have cfg: "truthy (stripeSecretKey sample_config)" "truthy (stripeWebhookSecret sample_config)"
    by (simp_all add: sample_config_def)
  have signed: "constructEvent sample_sdk (raw_body ?req) (stripe_signature ?req)
      (stripeWebhookSecret sample_config) = Inr ?ev"
    by (simp add: sample_sdk_def sample_config_def sample_delivery_def)
  have row: "0 < length (profiles (db sample_world))"
    "profile_id (profiles (db sample_world) ! 0) = ''u1''"
    "plan (profiles (db sample_world) ! 0) = ''free''"
    by (simp_all add: sample_world_def sample_store_def)
  show ?thesis
    using row C3_checkout_completed_sets_premium
      [OF cfg signed, of "''u1''" "''cus_1''" "''sub_1''" 0 sample_world]
    by simp
qed

text \<open>
  Claim C4.  A verified \<open>customer.subscription.deleted\<close> event for customer \<open>cus_1\<close> is
  answered \<open>{received: true}\<close>, and a profile row whose \<open>stripe_customer_id\<close> is
  \<open>cus_1\<close> then has plan \<open>free\<close> and a null \<open>stripe_subscription_id\<close>, with its
  \<open>stripe_customer_id\<close> and its \<open>id\<close> as before.
\<close>

theorem C4_subscription_deleted_resets_plan:
  assumes cfg: "truthy (stripeSecretKey cfg)" "truthy (stripeWebhookSecret cfg)"
    and signed: "constructEvent sdk (raw_body req) (stripe_signature req)
                   (stripeWebhookSecret cfg) = Inr ev"
    and kind: "event_type ev = ''customer.subscription.deleted''"
    and ref: "customer (data_object ev) = Some cus_1"
    and row: "i < length (profiles (db w))"
             "stripe_customer_id (profiles (db w) ! i) = Some cus_1"
  shows "fst (stripe_webhook cfg sdk w req) = \<lparr>status = 200, body = ReceivedJson True\<rparr>
       \<and> length (profiles (db (snd (stripe_webhook cfg sdk w req)))) = length (profiles (db w))
       \<and> plan (profiles (db (snd (stripe_webhook cfg sdk w req))) ! i) = ''free''
       \<and> stripe_subscription_id (profiles (db (snd (stripe_webhook cfg sdk w req))) ! i) = None
       \<and> stripe_customer_id (profiles (db (snd (stripe_webhook cfg sdk w req))) ! i)
           = Some cus_1
       \<and> profile_id (profiles (db (snd (stripe_webhook cfg sdk w req))) ! i)
           = profile_id (profiles (db w) ! i)"
  using ref row kind
  by (simp add: webhook_verified [OF cfg signed] apply_event_def DEFAULT_PLAN_def)

theorem C4_subscription_deleted_resets_plan_witness:
  "profiles (db sample_world) ! 1
       = \<lparr>profile_id = ''u2'', plan = ''premium'',
          stripe_customer_id = Some ''cus_1'', stripe_subscription_id = Some ''sub_1''\<rparr>
   \<and> fst (stripe_webhook sample_config sample_sdk sample_world
         (sample_delivery ''customer.subscription.deleted'' ''whsec_test''))
       = \<lparr>status = 200, body = ReceivedJson True\<rparr>
   \<and> plan (profiles (db (snd (stripe_webhook sample_config sample_sdk sample_world
         (sample_delivery ''customer.subscription.deleted'' ''whsec_test'')))) ! 1) = ''free''
   \<and> stripe_subscription_id (profiles (db (snd (stripe_webhook sample_config sample_sdk
         sample_world (sample_delivery ''customer.subscription.deleted'' ''whsec_test'')))) ! 1)
       = None
   \<and> stripe_customer_id (profiles (db (snd (stripe_webhook sample_config sample_sdk
         sample_world (sample_delivery ''customer.subscription.deleted'' ''whsec_test'')))) ! 1)
       = Some ''cus_1''
   \<and> profile_id (profiles (db (snd (stripe_webhook sample_config sample_sdk
         sample_world (sample_delivery ''customer.subscription.deleted'' ''whsec_test'')))) ! 1)
       = ''u2''"
proof -
  let ?req = "sample_delivery ''customer.subscription.deleted'' ''whsec_test''"
  let ?ev = "\<lparr>event_type = ''customer.subscription.deleted'',
              data_object = \<lparr>metadata_supabaseUserId = Some ''u1'',
                              customer = Some ''cus_1'',
                              subscription = Some ''sub_1''\<rparr>\<rparr>"
  have cfg: "truthy (stripeSecretKey sample_config)" "truthy (stripeWebhookSecret sample_config)"
    by (simp_all add: sample_config_def)
  have signed: "constructEvent sample_sdk (raw_body ?req) (stripe_signature ?req)
      (stripeWebhookSecret sample_config) = Inr ?ev"
    by (simp add: sample_sdk_def sample_config_def sample_delivery_def)
  have row: "profiles (db sample_world) ! 1
       = \<lparr>profile_id = ''u2'', plan = ''premium'',
          stripe_customer_id = Some ''cus_1'', stripe_subscription_id = Some ''sub_1''\<rparr>"
    "1 < length (profiles (db sample_world))"
    by (simp_all add: sample_world_def sample_store_def)
  show ?thesis
    using row C4_subscription_deleted_resets_plan
      [OF cfg signed, of "''cus_1''" 1 sample_world]
    by simp
qed

text \<open>
  Claim C9.  A verified event that is none of the two transitions is answered
  \<open>{received: true}\<close> and changes no profile (nor any post, nor anything at the billing
  provider): an event of any other type, a \<open>checkout.session.completed\<close> event with no
  identity tag (absent or empty), or one whose identity tag is the id of no profile.
\<close>

theorem C9_other_events_acknowledged:
  assumes cfg: "truthy (stripeSecretKey cfg)" "truthy (stripeWebhookSecret cfg)"
    and signed: "constructEvent sdk (raw_body req) (stripe_signature req)
                   (stripeWebhookSecret cfg) = Inr ev"
    and kind:
      "(event_type ev \<noteq> ''checkout.session.completed''
          \<and> event_type ev \<noteq> ''customer.subscription.deleted'')
       \<or> (event_type ev = ''checkout.session.completed''
          \<and> \<not> truthy (metadata_supabaseUserId (data_object ev)))
       \<or> (event_type ev = ''checkout.session.completed''
          \<and> metadata_supabaseUserId (data_object ev) = Some v
          \<and> v \<notin> set (map profile_id (profiles (db w))))"
  shows "fst (stripe_webhook cfg sdk w req) = \<lparr>status = 200, body = ReceivedJson True\<rparr>
       \<and> profiles (db (snd (stripe_webhook cfg sdk w req))) = profiles (db w)
       \<and> blogs (db (snd (stripe_webhook cfg sdk w req))) = blogs (db w)
       \<and> stripe_customers (snd (stripe_webhook cfg sdk w req)) = stripe_customers w"
proof -
  have "profiles (apply_event (db w) ev) = profiles (db w)"
    using kind
    by (auto simp: apply_event_def Let_def eq_id_def intro!: map_if_miss split: option.splits)
  then show ?thesis
    by (simp add: webhook_verified [OF cfg signed])
qed

theorem C9_other_events_acknowledged_witness:
  "fst (stripe_webhook sample_config sample_sdk sample_world
         (sample_delivery ''invoice.paid'' ''whsec_test''))
       = \<lparr>status = 200, body = ReceivedJson True\<rparr>
   \<and> profiles (db (snd (stripe_webhook sample_config sample_sdk sample_world
         (sample_delivery ''invoice.paid'' ''whsec_test'')))) = profiles (db sample_world)
   \<and> fst (stripe_webhook sample_config sample_sdk
           (sample_world\<lparr>db := sample_store\<lparr>profiles := tl (profiles sample_store)\<rparr>\<rparr>)
           (sample_delivery ''checkout.session.completed'' ''whsec_test''))
       = \<lparr>status = 200, body = ReceivedJson True\<rparr>
   \<and> profiles (db (snd (stripe_webhook sample_config sample_sdk
           (sample_world\<lparr>db := sample_store\<lparr>profiles := tl (profiles sample_store)\<rparr>\<rparr>)
           (sample_delivery ''checkout.session.completed'' ''whsec_test''))))
       = tl (profiles sample_store)"
proof -
  let ?other = "sample_delivery ''invoice.paid'' ''whsec_test''"
  let ?done = "sample_delivery ''checkout.session.completed'' ''whsec_test''"
  let ?obj = "\<lparr>metadata_supabaseUserId = Some ''u1'', customer = Some ''cus_1'',
               subscription = Some ''sub_1''\<rparr>"
  let ?w = "sample_world\<lparr>db := sample_store\<lparr>profiles := tl (profiles sample_store)\<rparr>\<rparr>"
  have cfg: "truthy (stripeSecretKey sample_config)" "truthy (stripeWebhookSecret sample_config)"
    by (simp_all add: sample_config_def)
  have s1: "constructEvent sample_sdk (raw_body ?other) (stripe_signature ?other)
      (stripeWebhookSecret sample_config) = Inr \<lparr>event_type = ''invoice.paid'', data_object = ?obj\<rparr>"
    by (simp add: sample_sdk_def sample_config_def sample_delivery_def)
  have s2: "constructEvent sample_sdk (raw_body ?done) (stripe_signature ?done)
      (stripeWebhookSecret sample_config)
        = Inr \<lparr>event_type = ''checkout.session.completed'', data_object = ?obj\<rparr>"
    by (simp add: sample_sdk_def sample_config_def sample_delivery_def)
  have k1: "(event_type \<lparr>event_type = ''invoice.paid'', data_object = ?obj\<rparr>
               \<noteq> ''checkout.session.completed''
          \<and> event_type \<lparr>event_type = ''invoice.paid'', data_object = ?obj\<rparr>
               \<noteq> ''customer.subscription.deleted'')
       \<or> (event_type \<lparr>event_type = ''invoice.paid'', data_object = ?obj\<rparr>
               = ''checkout.session.completed''
          \<and> \<not> truthy (metadata_supabaseUserId
                (data_object \<lparr>event_type = ''invoice.paid'', data_object = ?obj\<rparr>)))
       \<or> (event_type \<lparr>event_type = ''invoice.paid'', data_object = ?obj\<rparr>
               = ''checkout.session.completed''
          \<and> metadata_supabaseUserId
                (data_object \<lparr>event_type = ''invoice.paid'', data_object = ?obj\<rparr>) = Some ''u1''
          \<and> ''u1'' \<notin> set (map profile_id (profiles (db sample_world))))"
    by simp
  have k2: "(event_type \<lparr>event_type = ''checkout.session.completed'', data_object = ?obj\<rparr>
               \<noteq> ''checkout.session.completed''
          \<and> event_type \<lparr>event_type = ''checkout.session.completed'', data_object = ?obj\<rparr>
               \<noteq> ''customer.subscription.deleted'')
       \<or> (event_type \<lparr>event_type = ''checkout.session.completed'', data_object = ?obj\<rparr>
               = ''checkout.session.completed''
          \<and> \<not> truthy (metadata_supabaseUserId
                (data_object \<lparr>event_type = ''checkout.session.completed'', data_object = ?obj\<rparr>)))
       \<or> (event_type \<lparr>event_type = ''checkout.session.completed'', data_object = ?obj\<rparr>
               = ''checkout.session.completed''
          \<and> metadata_supabaseUserId
                (data_object \<lparr>event_type = ''checkout.session.completed'', data_object = ?obj\<rparr>)
              = Some ''u1''
          \<and> ''u1'' \<notin> set (map profile_id (profiles (db ?w))))"
    by (simp add: sample_store_def)
  show ?thesis
    using C9_other_events_acknowledged [OF cfg s1 k1]
      C9_other_events_acknowledged [OF cfg s2 k2]
    by simp
qed

section \<open>Profile provisioner: results\<close>

lemma ensureProfile_found:
  "filter (eq_id (uid usr)) (profiles s) = [p] \<Longrightarrow>
   ensureProfile s usr = (Inr (Some p), logged SelectProfiles s)"
  by (simp add: ensureProfile_def profiles_select_single_def single_def)

lemma ensureProfile_inserts:
  assumes "uid usr \<notin> set (map profile_id (profiles s))"
  shows "ensureProfile s usr =
           (Inr (Some \<lparr>profile_id = uid usr, plan = ''free'',
                       stripe_customer_id = None, stripe_subscription_id = None\<rparr>),
            logged InsertProfiles
              ((logged SelectProfiles s)\<lparr>profiles := profiles s @
                 [\<lparr>profile_id = uid usr, plan = ''free'',
                   stripe_customer_id = None, stripe_subscription_id = None\<rparr>]\<rparr>))"
proof -
  have sel: "profiles_select_single s (uid usr) =
      ((None, Some (StoreError ''PGRST116''
          ''JSON object requested, multiple (or no) rows returned'')), logged SelectProfiles s)"
    using assms by (simp add: profiles_select_single_def single_def filter_eq_id_absent)
  have ins: "uid usr \<notin> set (map profile_id (profiles (logged SelectProfiles s)))"
    using assms by (simp add: logged_def)
  show ?thesis
    using ins
    by (simp add: ensureProfile_def sel insert_default_profile_def profiles_insert_single_def
        DEFAULT_PLAN_def Let_def logged_def)
qed

lemma insert_default_profile_row:
  assumes "insert_default_profile s usr = (Inr (Some p), s1)"
  shows "filter (eq_id (uid usr)) (profiles s1) = [p]"
  using assms
  by (auto simp: insert_default_profile_def profiles_insert_single_def Let_def logged_def
      filter_eq_id_absent eq_id_def split: if_splits)

lemma ensureProfile_row:
  assumes "ensureProfile s usr = (Inr (Some p), s1)"
  shows "filter (eq_id (uid usr)) (profiles s1) = [p]"
proof (cases "fst (single (filter (eq_id (uid usr)) (profiles s)))")
  case None
  then obtain e where e: "single (filter (eq_id (uid usr)) (profiles s)) = (None, Some e)"
    using single_None [of "filter (eq_id (uid usr)) (profiles s)"]
    by (cases "single (filter (eq_id (uid usr)) (profiles s))") auto
  then have "insert_default_profile (logged SelectProfiles s) usr = (Inr (Some p), s1)"
    using assms
    by (simp add: ensureProfile_def profiles_select_single_def split: if_splits)
  then show ?thesis by (simp add: insert_default_profile_row)
next
  case (Some q)
  then obtain e where e: "single (filter (eq_id (uid usr)) (profiles s)) = (Some q, e)"
    by (cases "single (filter (eq_id (uid usr)) (profiles s))") auto
  then have "q = p" "s1 = logged SelectProfiles s"
    using assms by (simp_all add: ensureProfile_def profiles_select_single_def)
  then show ?thesis using single_Some [OF e] by (simp add: logged_def)
qed

text \<open>
  Claim C6.  For an identity with no profile row, \<open>ensureProfile\<close> inserts exactly one
  row, with plan \<open>free\<close> and null billing fields, and returns it; called again on the
  resulting store it returns the same row, leaves the table as it is and issues one
  query only, the lookup: there is no second insert.
\<close>

theorem C6_ensureProfile_idempotent:
  assumes "uid usr \<notin> set (map profile_id (profiles s))"
  shows "fst (ensureProfile s usr) =
           Inr (Some \<lparr>profile_id = uid usr, plan = ''free'',
                      stripe_customer_id = None, stripe_subscription_id = None\<rparr>)
       \<and> profiles (snd (ensureProfile s usr)) =
           profiles s @ [\<lparr>profile_id = uid usr, plan = ''free'',
                          stripe_customer_id = None, stripe_subscription_id = None\<rparr>]
       \<and> fst (ensureProfile (snd (ensureProfile s usr)) usr) = fst (ensureProfile s usr)
       \<and> profiles (snd (ensureProfile (snd (ensureProfile s usr)) usr)) =
           profiles (snd (ensureProfile s usr))
       \<and> calls (snd (ensureProfile (snd (ensureProfile s usr)) usr)) =
           calls (snd (ensureProfile s usr)) @ [SelectProfiles]"
proof -
  let ?row = "\<lparr>profile_id = uid usr, plan = ''free'',
               stripe_customer_id = None, stripe_subscription_id = None\<rparr>"
  let ?s1 = "logged InsertProfiles ((logged SelectProfiles s)\<lparr>profiles := profiles s @ [?row]\<rparr>)"
  have first: "ensureProfile s usr = (Inr (Some ?row), ?s1)"
    by (rule ensureProfile_inserts [OF assms])
  have "filter (eq_id (uid usr)) (profiles ?s1) = [?row]"
    using assms by (simp add: logged_def filter_eq_id_absent eq_id_def)
  then have second: "ensureProfile ?s1 usr = (Inr (Some ?row), logged SelectProfiles ?s1)"
    by (rule ensureProfile_found)
  show ?thesis
    by (simp add: first second) (simp add: logged_def)
qed

theorem C6_ensureProfile_idempotent_witness:
  "fst (ensureProfile sample_store (sample_user ''u9'')) =
       Inr (Some \<lparr>profile_id = ''u9'', plan = ''free'',
                  stripe_customer_id = None, stripe_subscription_id = None\<rparr>)
   \<and> profiles (snd (ensureProfile sample_store (sample_user ''u9''))) =
       profiles sample_store @ [\<lparr>profile_id = ''u9'', plan = ''free'',
                      stripe_customer_id = None, stripe_subscription_id = None\<rparr>]
   \<and> fst (ensureProfile (snd (ensureProfile sample_store (sample_user ''u9''))) (sample_user ''u9''))
       = Inr (Some \<lparr>profile_id = ''u9'', plan = ''free'',
                  stripe_customer_id = None, stripe_subscription_id = None\<rparr>)
   \<and> profiles (snd (ensureProfile (snd (ensureProfile sample_store (sample_user ''u9'')))
         (sample_user ''u9'')))
       = profiles sample_store @ [\<lparr>profile_id = ''u9'', plan = ''free'',
                      stripe_customer_id = None, stripe_subscription_id = None\<rparr>]"
proof -
  have new: "uid (sample_user ''u9'') \<notin> set (map profile_id (profiles sample_store))"
    by (simp add: sample_user_def sample_store_def)
  show ?thesis
    using C6_ensureProfile_idempotent [OF new]
    by (simp add: sample_user_def)
qed

section \<open>Post handlers: results\<close>

text \<open>
  Claim C10.  A \<open>POST /blogs\<close> or \<open>PUT /blogs/:id\<close> whose title or content is the empty
  string is answered 400 with \<open>Title and content are required.\<close>, which is the
  answer to a request with the fields absent, and the world is returned as it was:
  no query reaches the store, so no profile is provisioned, no post counted, inserted
  or updated.
\<close>

theorem C10_empty_fields_rejected:
  assumes "body_title b = Some [] \<or> body_content b = Some []"
  shows "post_blogs w usr b =
           (\<lparr>status = 400, body = ErrorJson ''Title and content are required.''\<rparr>, w)
       \<and> put_blogs w usr blogId b =
           (\<lparr>status = 400, body = ErrorJson ''Title and content are required.''\<rparr>, w)
       \<and> post_blogs w usr b = post_blogs w usr \<lparr>body_title = None, body_content = None\<rparr>
       \<and> put_blogs w usr blogId b =
           put_blogs w usr blogId \<lparr>body_title = None, body_content = None\<rparr>"
proof -
  have r: "required_fields b = None"
    using assms by (auto simp: required_fields_def split: option.splits)
  have n: "required_fields \<lparr>body_title = None, body_content = None\<rparr> = None"
    by (simp add: required_fields_def)
  show ?thesis by (simp add: post_blogs_def put_blogs_def r n)
qed

theorem C10_empty_fields_rejected_witness:
  "post_blogs sample_world (sample_user ''u3'')
       \<lparr>body_title = Some [], body_content = Some ''c''\<rparr>
     = (\<lparr>status = 400, body = ErrorJson ''Title and content are required.''\<rparr>, sample_world)
   \<and> put_blogs sample_world (sample_user ''u2'') 5
       \<lparr>body_title = Some ''t'', body_content = Some []\<rparr>
     = (\<lparr>status = 400, body = ErrorJson ''Title and content are required.''\<rparr>, sample_world)"
  using C10_empty_fields_rejected
      [of "\<lparr>body_title = Some [], body_content = Some ''c''\<rparr>" sample_world
          "sample_user ''u3''"]
    C10_empty_fields_rejected
      [of "\<lparr>body_title = Some ''t'', body_content = Some []\<rparr>" sample_world
          "sample_user ''u2''" 5]
  by simp

text \<open>
  Claim C1.  For a user with a profile row on the \<open>free\<close> plan and a request with a
  non-empty title and content: with four or more posts of the user in the store,
  \<open>POST /blogs\<close> is answered 403 with a message naming the ceiling 4 and the posts are
  as before; with fewer than four, the post is appended under a fresh id, returned with
  status 200, and the number of posts of the user grows by one.
\<close>

theorem C1_free_plan_ceiling:
  assumes prof: "filter (eq_id (uid usr)) (profiles (db w)) = [p]" "plan p = ''free''"
    and fields: "body_title b = Some t" "t \<noteq> []" "body_content b = Some c" "c \<noteq> []"
  shows "(if 4 \<le> length (filter (\<lambda>x. user_id x = uid usr) (blogs (db w)))
          then fst (post_blogs w usr b) =
                 \<lparr>status = 403,
                  body = ErrorJson ''Plan limit reached. Upgrade to add more than 4 blogs.''\<rparr>
             \<and> blogs (db (snd (post_blogs w usr b))) = blogs (db w)
          else fst (post_blogs w usr b) =
                 \<lparr>status = 200,
                  body = BlogJson \<lparr>blog_id = blogs_seq (db w), title = t, content = c,
                                   user_id = uid usr\<rparr>\<rparr>
             \<and> blogs (db (snd (post_blogs w usr b))) =
                 blogs (db w) @ [\<lparr>blog_id = blogs_seq (db w), title = t, content = c,
                                  user_id = uid usr\<rparr>]
             \<and> length (filter (\<lambda>x. user_id x = uid usr) (blogs (db (snd (post_blogs w usr b)))))
                 = length (filter (\<lambda>x. user_id x = uid usr) (blogs (db w))) + 1)"
proof -
  let ?n = "length (filter (\<lambda>x. user_id x = uid usr) (blogs (db w)))"
  let ?s2 = "logged CountBlogs (logged SelectProfiles (db w))"
  let ?row = "\<lparr>blog_id = blogs_seq ?s2, title = t, content = c, user_id = uid usr\<rparr>"
  have req: "required_fields b = Some (t, c)"
    by (simp add: required_fields_def fields)
  have ens: "ensureProfile (db w) usr = (Inr (Some p), logged SelectProfiles (db w))"
    by (rule ensureProfile_found [OF prof(1)])
  have cnt: "getBlogCount (logged SelectProfiles (db w)) (uid usr) = (Inr ?n, ?s2)"
    by (simp add: getBlogCount_def blogs_count_def logged_def)
  have lim: "getPlanLimit (plan p) = Some (JNum 4)"
    by (simp add: prof(2) getPlanLimit_free)
  have full: "4 \<le> ?n \<Longrightarrow> post_blogs w usr b =
      (\<lparr>status = 403,
        body = ErrorJson ''Plan limit reached. Upgrade to add more than 4 blogs.''\<rparr>,
       w\<lparr>db := ?s2\<rparr>)"
    by (simp add: post_blogs_def req ens cnt lim string_of_nat_4)
  have room: "?n < 4 \<Longrightarrow> post_blogs w usr b =
      (\<lparr>status = 200, body = BlogJson ?row\<rparr>,
       w\<lparr>db := logged InsertBlogs
          (?s2\<lparr>blogs := blogs ?s2 @ [?row], blogs_seq := Suc (blogs_seq ?s2)\<rparr>)\<rparr>)"
    by (simp add: post_blogs_def req ens cnt lim blogs_insert_single_def Let_def)
  show ?thesis
  proof (cases "4 \<le> ?n")
    case True
    then show ?thesis by (simp add: full logged_def)
  next
    case False
    then have "?n < 4" by simp
    then show ?thesis by (simp add: room logged_def)
  qed
qed

theorem C1_free_plan_ceiling_witness:
  "length (filter (\<lambda>x. user_id x = ''u1'') (blogs (db sample_world))) = 4
   \<and> fst (post_blogs sample_world (sample_user ''u1'') sample_body) =
       \<lparr>status = 403,
        body = ErrorJson ''Plan limit reached. Upgrade to add more than 4 blogs.''\<rparr>
   \<and> blogs (db (snd (post_blogs sample_world (sample_user ''u1'') sample_body)))
       = blogs (db sample_world)
   \<and> length (filter (\<lambda>x. user_id x = ''u3'') (blogs (db sample_world))) = 0
   \<and> fst (post_blogs sample_world (sample_user ''u3'') sample_body) =
       \<lparr>status = 200,
        body = BlogJson \<lparr>blog_id = 6, title = ''t'', content = ''c'', user_id = ''u3''\<rparr>\<rparr>
   \<and> blogs (db (snd (post_blogs sample_world (sample_user ''u3'') sample_body)))
       = blogs (db sample_world)
           @ [\<lparr>blog_id = 6, title = ''t'', content = ''c'', user_id = ''u3''\<rparr>]
   \<and> length (filter (\<lambda>x. user_id x = ''u3'')
        (blogs (db (snd (post_blogs sample_world (sample_user ''u3'') sample_body))))) = 1"
proof -
  have p1: "filter (eq_id (uid (sample_user ''u1''))) (profiles (db sample_world)) =
      [\<lparr>profile_id = ''u1'', plan = ''free'',
        stripe_customer_id = None, stripe_subscription_id = None\<rparr>]"
    by (simp add: sample_user_def sample_world_def sample_store_def eq_id_def)
  have p3: "filter (eq_id (uid (sample_user ''u3''))) (profiles (db sample_world)) =
      [\<lparr>profile_id = ''u3'', plan = ''free'',
        stripe_customer_id = Some ''cus_3'', stripe_subscription_id = None\<rparr>]"
    by (simp add: sample_user_def sample_world_def sample_store_def eq_id_def)
  have n1: "length (filter (\<lambda>x. user_id x = ''u1'') (blogs (db sample_world))) = 4"
    by (simp add: sample_world_def sample_store_def)
  have n3: "length (filter (\<lambda>x. user_id x = ''u3'') (blogs (db sample_world))) = 0"
    by (simp add: sample_world_def sample_store_def)
  have seq: "blogs_seq (db sample_world) = 6"
    by (simp add: sample_world_def sample_store_def)
  have u: "uid (sample_user ''u1'') = ''u1''" "uid (sample_user ''u3'') = ''u3''"
    by (simp_all add: sample_user_def)
  show ?thesis
    using C1_free_plan_ceiling [OF p1, of sample_body "''t''" "''c''"]
      C1_free_plan_ceiling [OF p3, of sample_body "''t''" "''c''"]
    by (simp add: n1 n3 seq u sample_body_def)
qed

lemma put_blogs_miss:
  assumes "required_fields b = Some (t, c)"
    and "filter (eq_id_user_id blogId (uid usr)) (blogs (db w)) = []"
  shows "put_blogs w usr blogId b =
           (\<lparr>status = 500, body = ErrorJson ''Failed to update blog.''\<rparr>,
            w\<lparr>db := logged UpdateBlogs (db w)\<rparr>)"
  using assms
  by (simp add: put_blogs_def blogs_update_single_def single_def failed_def)

lemma delete_blogs_miss:
  assumes "filter (eq_id_user_id blogId (uid usr)) (blogs (db w)) = []"
  shows "delete_blogs w usr blogId =
           (\<lparr>status = 500, body = ErrorJson ''Failed to delete blog.''\<rparr>,
            w\<lparr>db := logged DeleteBlogs (db w)\<rparr>)"
  using assms
  by (simp add: delete_blogs_def blogs_delete_single_def single_def failed_def)

lemma put_blogs_never_404: "status (fst (put_blogs w usr blogId b)) \<noteq> 404"
  by (auto simp: put_blogs_def blogs_update_single_def single_def Let_def failed_def
      split: option.splits list.splits)

lemma delete_blogs_never_404: "status (fst (delete_blogs w usr blogId)) \<noteq> 404"
  by (auto simp: delete_blogs_def blogs_delete_single_def single_def Let_def failed_def
      split: option.splits list.splits)

lemma not_owned_no_match:
  "(\<And>x. x \<in> set bs \<Longrightarrow> blog_id x = i \<Longrightarrow> user_id x \<noteq> v) \<Longrightarrow>
   filter (eq_id_user_id i v) bs = []"
  by (induction bs) (auto simp: eq_id_user_id_def)

text \<open>
  Claim C8.  A \<open>PUT\<close> or \<open>DELETE\<close> on \<open>/blogs/:id\<close> aimed at a post of another user (or
  at no post) is to be answered 404 and leave the posts unchanged.  The posts are
  indeed unchanged, but the answer is 500: \<open>.single()\<close> reports an empty result as the
  error \<open>PGRST116\<close>, each handler throws on any error before it tests \<open>!data\<close>, and its
  \<open>catch\<close> answers 500 (\<open>put_blogs_miss\<close>, \<open>delete_blogs_miss\<close>); no request at all
  reaches the 404 branch (\<open>put_blogs_never_404\<close>, \<open>delete_blogs_never_404\<close>).  Here user
  \<open>u1\<close> addresses post 5, which belongs to \<open>u2\<close>.
\<close>

theorem C8_foreign_post_answers_500:
  "user_id (blogs (db sample_world) ! 4) = ''u2''
   \<and> blog_id (blogs (db sample_world) ! 4) = 5
   \<and> fst (put_blogs sample_world (sample_user ''u1'') 5 sample_body)
       = \<lparr>status = 500, body = ErrorJson ''Failed to update blog.''\<rparr>
   \<and> blogs (db (snd (put_blogs sample_world (sample_user ''u1'') 5 sample_body)))
       = blogs (db sample_world)
   \<and> fst (delete_blogs sample_world (sample_user ''u1'') 5)
       = \<lparr>status = 500, body = ErrorJson ''Failed to delete blog.''\<rparr>
   \<and> blogs (db (snd (delete_blogs sample_world (sample_user ''u1'') 5)))
       = blogs (db sample_world)"
proof -
  have req: "required_fields sample_body = Some (''t'', ''c'')"
    by (simp add: required_fields_def sample_body_def)
  have miss: "filter (eq_id_user_id 5 (uid (sample_user ''u1''))) (blogs (db sample_world)) = []"
    by (simp add: sample_user_def sample_world_def sample_store_def eq_id_user_id_def)
  have row: "user_id (blogs (db sample_world) ! 4) = ''u2''"
    "blog_id (blogs (db sample_world) ! 4) = 5"
    by (simp_all add: sample_world_def sample_store_def)
  show ?thesis
    using row
    by (simp add: put_blogs_miss [OF req miss] delete_blogs_miss [OF miss] logged_def)
qed

section \<open>Checkout initiator: results\<close>

lemma checkout_reuses:
  assumes cfg: "truthy (stripeSecretKey cfg)" "truthy (stripePriceId cfg)"
    and prof: "ensureProfile (db w) usr = (Inr (Some p), s1)" "plan p \<noteq> ''premium''"
    and cust: "truthy (stripe_customer_id p)"
  shows "status (fst (billing_checkout cfg sdk w usr)) = 200
       \<and> stripe_customers (snd (billing_checkout cfg sdk w usr)) = stripe_customers w
       \<and> profiles (db (snd (billing_checkout cfg sdk w usr))) = profiles s1
       \<and> map session_customer (checkout_sessions (snd (billing_checkout cfg sdk w usr))) =
           map session_customer (checkout_sessions w) @ [or_default (stripe_customer_id p) []]"
  using cfg prof cust
  by (simp add: billing_checkout_def resolve_customer_def sessions_create_def Let_def)

lemma checkout_creates:
  assumes cfg: "truthy (stripeSecretKey cfg)" "truthy (stripePriceId cfg)"
    and prof: "ensureProfile (db w) usr = (Inr (Some p), s1)" "plan p \<noteq> ''premium''"
    and cust: "\<not> truthy (stripe_customer_id p)"
  shows "status (fst (billing_checkout cfg sdk w usr)) = 200
       \<and> stripe_customers (snd (billing_checkout cfg sdk w usr)) =
           stripe_customers w @
             [\<lparr>customer_id = customer_id_gen sdk (length (stripe_customers w)),
               customer_email = (if truthy (email usr) then email usr else None),
               customer_supabaseUserId = uid usr\<rparr>]
       \<and> filter (eq_id (uid usr)) (profiles (db (snd (billing_checkout cfg sdk w usr)))) =
           [p\<lparr>stripe_customer_id :=
                Some (customer_id_gen sdk (length (stripe_customers w)))\<rparr>]
       \<and> map session_customer (checkout_sessions (snd (billing_checkout cfg sdk w usr))) =
           map session_customer (checkout_sessions w)
             @ [customer_id_gen sdk (length (stripe_customers w))]"
  using cfg prof cust
  by (simp add: billing_checkout_def resolve_customer_def sessions_create_def
      customers_create_def Let_def filter_eq_id_update ensureProfile_row)

lemma checkout_calls_reuse:
  assumes cfg: "truthy (stripeSecretKey cfg)" "truthy (stripePriceId cfg)"
    and p: "plan p \<noteq> ''premium''" "truthy (stripe_customer_id p)"
  shows "filter (eq_id (uid usr)) (profiles (db w)) = [p] \<Longrightarrow>
         stripe_customers (checkout_calls n cfg sdk usr w) = stripe_customers w"
proof (induction n arbitrary: w)
  case 0
  then show ?case by simp
next
  case (Suc n)
  note ens = ensureProfile_found [OF Suc.prems]
  note step = checkout_reuses [OF cfg ens p, of sdk]
  have "filter (eq_id (uid usr)) (profiles (db (snd (billing_checkout cfg sdk w usr)))) = [p]"
    using step Suc.prems by (simp add: logged_def)
  from Suc.IH [OF this] step show ?case by simp
qed

text \<open>
  Claim C7, as the code has it.  With billing configured and the provider issuing
  non-empty customer ids, take an identity whose profile, as \<open>ensureProfile\<close> finds or
  creates it, is not on the premium plan, and call the checkout twice in a row.  Both
  calls succeed.  If the profile had no customer id, the first call creates exactly one
  customer, tagged with the identity, and the profile row then carries its id; if it
  had one, the first call creates none.  The second call creates none in either case
  and opens its session for the same customer as the first, and so does every later
  call: after any number of calls the provider holds the customers it held after the
  first, at most one more than at the start.
\<close>

theorem C7_checkout_customer_reused:
  assumes cfg: "truthy (stripeSecretKey cfg)" "truthy (stripePriceId cfg)"
    and prof: "ensureProfile (db w) usr = (Inr (Some p), s1)" "plan p \<noteq> ''premium''"
    and gen: "customer_id_gen sdk (length (stripe_customers w)) \<noteq> []"
  shows "status (fst (billing_checkout cfg sdk w usr)) = 200
       \<and> status (fst (billing_checkout cfg sdk (snd (billing_checkout cfg sdk w usr)) usr)) = 200
       \<and> (if truthy (stripe_customer_id p)
          then stripe_customers (snd (billing_checkout cfg sdk w usr)) = stripe_customers w
          else (\<exists>cust. stripe_customers (snd (billing_checkout cfg sdk w usr)) =
                         stripe_customers w @ [cust]
                  \<and> customer_supabaseUserId cust = uid usr
                  \<and> filter (eq_id (uid usr))
                        (profiles (db (snd (billing_checkout cfg sdk w usr)))) =
                      [p\<lparr>stripe_customer_id := Some (customer_id cust)\<rparr>]))
       \<and> stripe_customers (snd (billing_checkout cfg sdk (snd (billing_checkout cfg sdk w usr)) usr))
           = stripe_customers (snd (billing_checkout cfg sdk w usr))
       \<and> (\<exists>cid. map session_customer (checkout_sessions
              (snd (billing_checkout cfg sdk (snd (billing_checkout cfg sdk w usr)) usr)))
            = map session_customer (checkout_sessions w) @ [cid, cid])
       \<and> stripe_customers (checkout_calls (Suc n) cfg sdk usr w)
           = stripe_customers (snd (billing_checkout cfg sdk w usr))
       \<and> length (stripe_customers (checkout_calls (Suc n) cfg sdk usr w))
           \<le> length (stripe_customers w) + 1"
proof (cases "truthy (stripe_customer_id p)")
  case True
  let ?w1 = "snd (billing_checkout cfg sdk w usr)"
  note first = checkout_reuses [OF cfg prof True, of sdk]
  have row: "filter (eq_id (uid usr)) (profiles (db ?w1)) = [p]"
    using first ensureProfile_row [OF prof(1)] by simp
  note ens = ensureProfile_found [OF row]
  note second = checkout_reuses [OF cfg ens prof(2) True, of sdk]
  note later = checkout_calls_reuse [OF cfg prof(2) True row, of n sdk]
  show ?thesis using True first second later by simp
next
  case False
  let ?w1 = "snd (billing_checkout cfg sdk w usr)"
  let ?c = "customer_id_gen sdk (length (stripe_customers w))"
  note first = checkout_creates [OF cfg prof False, of sdk]
  have row: "filter (eq_id (uid usr)) (profiles (db ?w1)) = [p\<lparr>stripe_customer_id := Some ?c\<rparr>]"
    using first by simp
  note ens = ensureProfile_found [OF row]
  have pl: "plan (p\<lparr>stripe_customer_id := Some ?c\<rparr>) \<noteq> ''premium''"
    using prof(2) by simp
  have tr: "truthy (stripe_customer_id (p\<lparr>stripe_customer_id := Some ?c\<rparr>))"
    using gen by simp
  note second = checkout_reuses [OF cfg ens pl tr, of sdk]
  note later = checkout_calls_reuse [OF cfg pl tr row, of n sdk]
  show ?thesis using False first second later gen by simp
qed

theorem C7_checkout_customer_reused_witness:
  "plan (profiles (db sample_world) ! 0) = ''free''
   \<and> stripe_customer_id (profiles (db sample_world) ! 0) = None
   \<and> status (fst (billing_checkout sample_config sample_sdk sample_world (sample_user ''u1'')))
       = 200
   \<and> length (stripe_customers
        (snd (billing_checkout sample_config sample_sdk sample_world (sample_user ''u1''))))
       = length (stripe_customers sample_world) + 1
   \<and> stripe_customers
        (snd (billing_checkout sample_config sample_sdk
           (snd (billing_checkout sample_config sample_sdk sample_world (sample_user ''u1'')))
           (sample_user ''u1'')))
       = stripe_customers
           (snd (billing_checkout sample_config sample_sdk sample_world (sample_user ''u1'')))"
proof -
  let ?p = "\<lparr>profile_id = ''u1'', plan = ''free'',
             stripe_customer_id = None, stripe_subscription_id = None\<rparr>"
  have cfg: "truthy (stripeSecretKey sample_config)" "truthy (stripePriceId sample_config)"
    by (simp_all add: sample_config_def)
  have row: "filter (eq_id (uid (sample_user ''u1''))) (profiles (db sample_world)) = [?p]"
    by (simp add: sample_user_def sample_world_def sample_store_def eq_id_def)
  have free: "plan ?p \<noteq> ''premium''"
    by simp
  have gen: "customer_id_gen sample_sdk (length (stripe_customers sample_world)) \<noteq> []"
    by (simp add: sample_sdk_def)
  have first: "profiles (db sample_world) ! 0 = ?p"
    by (simp add: sample_world_def sample_store_def)
  show ?thesis
    using C7_checkout_customer_reused [OF cfg ensureProfile_found [OF row] free gen, of 1]
    by (auto simp: first)
qed

text \<open>
  Claim C7, as stated, at a profile on the free plan that already carries a customer id
  (user \<open>u3\<close>, after a cancelled subscription): both calls succeed, the first creates
  no customer, and the two together create none, not one.
\<close>

theorem C7_billed_free_profile_counterexample:
  "profiles (db sample_world) ! 2 =
       \<lparr>profile_id = ''u3'', plan = ''free'',
        stripe_customer_id = Some ''cus_3'', stripe_subscription_id = None\<rparr>
   \<and> status (fst (billing_checkout sample_config sample_sdk sample_world (sample_user ''u3'')))
       = 200
   \<and> stripe_customers
        (snd (billing_checkout sample_config sample_sdk sample_world (sample_user ''u3'')))
       = stripe_customers sample_world
   \<and> status (fst (billing_checkout sample_config sample_sdk
           (snd (billing_checkout sample_config sample_sdk sample_world (sample_user ''u3'')))
           (sample_user ''u3''))) = 200
   \<and> length (stripe_customers
        (snd (billing_checkout sample_config sample_sdk
           (snd (billing_checkout sample_config sample_sdk sample_world (sample_user ''u3'')))
           (sample_user ''u3''))))
       \<noteq> length (stripe_customers sample_world) + 1"
proof -
  let ?p = "\<lparr>profile_id = ''u3'', plan = ''free'',
             stripe_customer_id = Some ''cus_3'', stripe_subscription_id = None\<rparr>"
  let ?w1 = "snd (billing_checkout sample_config sample_sdk sample_world (sample_user ''u3''))"
  have cfg: "truthy (stripeSecretKey sample_config)" "truthy (stripePriceId sample_config)"
    by (simp_all add: sample_config_def)
  have row: "filter (eq_id (uid (sample_user ''u3''))) (profiles (db sample_world)) = [?p]"
    by (simp add: sample_user_def sample_world_def sample_store_def eq_id_def)
  have free: "plan ?p \<noteq> ''premium''" and billed: "truthy (stripe_customer_id ?p)"
    by simp_all
  note first = checkout_reuses [OF cfg ensureProfile_found [OF row] free billed, of sample_sdk]
  have row1: "filter (eq_id (uid (sample_user ''u3''))) (profiles (db ?w1)) = [?p]"
    using first row by (simp add: logged_def)
  note second = checkout_reuses [OF cfg ensureProfile_found [OF row1] free billed, of sample_sdk]
  have third: "profiles (db sample_world) ! 2 = ?p"
    by (simp add: sample_world_def sample_store_def)
  show ?thesis
    using first second by (simp add: third)
qed

end
